theory Spec2Isabelle
  imports Complex_Main "HOL-Library.Word"
begin

unbundle bit_operations_syntax

section \<open>Bytes, slices and the built-in copy\<close>

type_synonym byte = "8 word"

text \<open>Go's \<open>xs[lo:hi]\<close> on a slice whose length is at least \<open>hi\<close>. Every call site slices
  with constant bounds after a length check, so the bounds panic of Go is never reached.\<close>

definition slice :: "nat \<Rightarrow> nat \<Rightarrow> 'a list \<Rightarrow> 'a list" where
  "slice lo hi xs = take (hi - lo) (drop lo xs)"

text \<open>Go's built-in \<open>copy(dst[lo:hi], src)\<close>: copies \<open>min (hi - lo) (len src)\<close> elements and
  leaves the rest of the destination array as it was.\<close>

definition copy_slice :: "nat \<Rightarrow> nat \<Rightarrow> 'a list \<Rightarrow> 'a list \<Rightarrow> 'a list" where
  "copy_slice lo hi dst src =
     (let n = min (hi - lo) (length src)
      in take lo dst @ take n src @ drop (lo + n) dst)"

text \<open>A run-time panic of Go: index out of range, with the index and the length.\<close>

datatype runtime_error = IndexOutOfRange nat nat

text \<open>The loop \<open>for i, b := range src { dst[off+i] = b }\<close>: every store is bounds-checked.\<close>

fun store_range :: "nat \<Rightarrow> byte list \<Rightarrow> byte list \<Rightarrow> runtime_error + byte list" where
  "store_range off [] dst = Inr dst"
| "store_range off (b # bs) dst =
     (if off < length dst then store_range (Suc off) bs (dst[off := b])
      else Inl (IndexOutOfRange off (length dst)))"

section \<open>encoding/hex\<close>

definition hextable :: string where
  "hextable = ''0123456789abcdef''"

definition hex_byte :: "byte \<Rightarrow> string" where
  "hex_byte b = [hextable ! unat (drop_bit 4 b), hextable ! unat (b AND 0x0f)]"

text \<open>\<open>hex.EncodeToString\<close>: two lower-case digits for each byte.\<close>

definition hex_EncodeToString :: "byte list \<Rightarrow> string" where
  "hex_EncodeToString bs = concat (map hex_byte bs)"

text \<open>The reverse table of the decoder: digits and letters of both cases.\<close>

definition fromHexChar :: "char \<Rightarrow> byte option" where
  "fromHexChar c =
     (let n = (of_char c :: nat) in
      if 48 \<le> n \<and> n \<le> 57 then Some (of_nat (n - 48))
      else if 97 \<le> n \<and> n \<le> 102 then Some (of_nat (n - 97 + 10))
      else if 65 \<le> n \<and> n \<le> 70 then Some (of_nat (n - 65 + 10))
      else None)"

text \<open>\<open>hex.DecodeString\<close>: \<open>None\<close> is a non-nil error (an invalid byte or an odd length).\<close>

fun hex_DecodeString :: "string \<Rightarrow> byte list option" where
  "hex_DecodeString [] = Some []"
| "hex_DecodeString [p] = None"
| "hex_DecodeString (p # q # rest) =
     (case fromHexChar p of
        None \<Rightarrow> None
      | Some a \<Rightarrow>
          (case fromHexChar q of
             None \<Rightarrow> None
           | Some b \<Rightarrow> map_option ((#) (push_bit 4 a OR b)) (hex_DecodeString rest)))"

text \<open>\<open>fmt.Sprintf("%016x", bs)\<close> on a byte slice: the hex digits of the bytes, padded on the
  left to width 16 with zeros.\<close>

definition sprintf_016x :: "byte list \<Rightarrow> string" where
  "sprintf_016x bs =
     (let s = hex_EncodeToString bs in replicate (16 - length s) (CHR ''0'') @ s)"

section \<open>encoding/base64, StdEncoding\<close>

definition encodeStd :: string where
  "encodeStd = ''ABCDEFGHIJKLMNOPQRSTUVWXYZabcdefghijklmnopqrstuvwxyz0123456789+/''"

definition padChar :: char where
  "padChar = CHR ''=''"

definition b64_char :: "nat \<Rightarrow> char" where
  "b64_char v = encodeStd ! (v mod 64)"

text \<open>The 24-bit value of a group is kept as a natural number: \<open>div\<close> and \<open>mod\<close> by powers of
  two are the shifts and masks of the source.\<close>

fun base64_EncodeToString :: "byte list \<Rightarrow> string" where
  "base64_EncodeToString (a # b # c # rest) =
     (let val = unat a * 65536 + unat b * 256 + unat c
      in [b64_char (val div 262144), b64_char (val div 4096), b64_char (val div 64), b64_char val]
         @ base64_EncodeToString rest)"
| "base64_EncodeToString [a, b] =
     (let val = unat a * 65536 + unat b * 256
      in [b64_char (val div 262144), b64_char (val div 4096), b64_char (val div 64), padChar])"
| "base64_EncodeToString [a] =
     (let val = unat a * 65536
      in [b64_char (val div 262144), b64_char (val div 4096), padChar, padChar])"
| "base64_EncodeToString [] = []"

text \<open>The decode map: the position of a character in the alphabet, \<open>None\<close> for 0xff.\<close>

definition decodeMap :: "char \<Rightarrow> nat option" where
  "decodeMap c = map_of (zip encodeStd [0 ..< 64]) c"

definition quantum_bytes :: "nat \<Rightarrow> nat \<Rightarrow> nat \<Rightarrow> nat \<Rightarrow> byte list" where
  "quantum_bytes d0 d1 d2 d3 =
     (let val = d0 * 262144 + d1 * 4096 + d2 * 64 + d3
      in [of_nat (val div 65536), of_nat (val div 256), of_nat val])"

text \<open>Groups of four characters, after the line breaks are dropped. Padding is accepted only
  at the end of the input (anything after it is trailing garbage), and the decoder is not
  strict: the unused low bits of a padded group are not checked.\<close>

fun decode_quanta :: "string \<Rightarrow> byte list option" where
  "decode_quanta [] = Some []"
| "decode_quanta (c0 # c1 # c2 # c3 # rest) =
     (case decodeMap c0 of
        None \<Rightarrow> None
      | Some d0 \<Rightarrow>
     (case decodeMap c1 of
        None \<Rightarrow> None
      | Some d1 \<Rightarrow>
     (case decodeMap c2 of
        None \<Rightarrow>
          (if c2 = padChar \<and> c3 = padChar \<and> rest = []
           then Some (take 1 (quantum_bytes d0 d1 0 0)) else None)
      | Some d2 \<Rightarrow>
     (case decodeMap c3 of
        None \<Rightarrow>
          (if c3 = padChar \<and> rest = []
           then Some (take 2 (quantum_bytes d0 d1 d2 0)) else None)
      | Some d3 \<Rightarrow> map_option ((@) (quantum_bytes d0 d1 d2 d3)) (decode_quanta rest)))))"
| "decode_quanta _ = None"

text \<open>\<open>base64.StdEncoding.DecodeString\<close>: carriage returns and line feeds are ignored
  wherever they stand; \<open>None\<close> is a non-nil error.\<close>

definition base64_DecodeString :: "string \<Rightarrow> byte list option" where
  "base64_DecodeString s =
     decode_quanta (filter (\<lambda>c. c \<noteq> CHR 0x0A \<and> c \<noteq> CHR 0x0D) s)"

section \<open>net/http headers\<close>

text \<open>\<open>http.Header\<close> is a map from canonical keys to lists of values. The map is taken to be
  allocated, as it is in every request that \<open>net/http\<close> builds or receives.\<close>

type_synonym header = "string \<rightharpoonup> string list"

definition validHeaderFieldByte :: "char \<Rightarrow> bool" where
  "validHeaderFieldByte c =
     (let n = (of_char c :: nat) in
      (48 \<le> n \<and> n \<le> 57) \<or> (65 \<le> n \<and> n \<le> 90) \<or> (97 \<le> n \<and> n \<le> 122)
      \<or> c \<in> set ''!#$%&*+-.^_`|~'' \<or> n = 39)"

fun canon_chars :: "bool \<Rightarrow> string \<Rightarrow> string" where
  "canon_chars upper [] = []"
| "canon_chars upper (c # cs) =
     (let n = (of_char c :: nat);
          c' = (if upper \<and> 97 \<le> n \<and> n \<le> 122 then char_of (n - 32)
                else if \<not> upper \<and> 65 \<le> n \<and> n \<le> 90 then char_of (n + 32)
                else c)
      in c' # canon_chars (c' = CHR ''-'') cs)"

text \<open>\<open>textproto.CanonicalMIMEHeaderKey\<close>: a key with a byte that is not a token character is
  returned unchanged; otherwise the first letter and every letter after a hyphen become upper
  case and the others lower case.\<close>

definition CanonicalMIMEHeaderKey :: "string \<Rightarrow> string" where
  "CanonicalMIMEHeaderKey s = (if list_all validHeaderFieldByte s then canon_chars True s else s)"

text \<open>\<open>Header.Get\<close>: the first value under the canonical key, the empty string when there
  is none.\<close>

definition Header_Get :: "header \<Rightarrow> string \<Rightarrow> string" where
  "Header_Get h key =
     (case h (CanonicalMIMEHeaderKey key) of
        None \<Rightarrow> []
      | Some [] \<Rightarrow> []
      | Some (v # _) \<Rightarrow> v)"

text \<open>\<open>Header.Set\<close>: replaces the values under the canonical key by the single value.\<close>

definition Header_Set :: "header \<Rightarrow> string \<Rightarrow> string \<Rightarrow> header" where
  "Header_Set h key v = h(CanonicalMIMEHeaderKey key \<mapsto> [v])"

section \<open>float64, as far as the sampler needs it\<close>

text \<open>A float64 is a NaN, an infinity or a finite value; the finite values are taken among
  the reals. The comparisons are those of IEEE 754: every comparison with a NaN is false.\<close>

datatype float64 = NaN | NInf | Fin real | PInf

fun f_le :: "float64 \<Rightarrow> float64 \<Rightarrow> bool" where
  "f_le NaN _ = False"
| "f_le _ NaN = False"
| "f_le NInf _ = True"
| "f_le _ PInf = True"
| "f_le (Fin x) (Fin y) = (x \<le> y)"
| "f_le _ _ = False"

definition f_ge :: "float64 \<Rightarrow> float64 \<Rightarrow> bool" where
  "f_ge a b = f_le b a"

fun f_less :: "float64 \<Rightarrow> float64 \<Rightarrow> bool" where
  "f_less NaN _ = False"
| "f_less _ NaN = False"
| "f_less a b = (\<not> f_le b a)"

fun inf_times :: "float64 \<Rightarrow> real \<Rightarrow> float64" where
  "inf_times PInf x = (if x = 0 then NaN else if 0 < x then PInf else NInf)"
| "inf_times NInf x = (if x = 0 then NaN else if 0 < x then NInf else PInf)"
| "inf_times a x = a"

text \<open>The product of two float64: the rounding of a finite product to a float64 (to the
  nearest value, or to an infinity on overflow) is the parameter \<open>rnd\<close>.\<close>

fun f_mul :: "(real \<Rightarrow> float64) \<Rightarrow> float64 \<Rightarrow> float64 \<Rightarrow> float64" where
  "f_mul rnd NaN _ = NaN"
| "f_mul rnd _ NaN = NaN"
| "f_mul rnd (Fin x) (Fin y) = rnd (x * y)"
| "f_mul rnd (Fin x) i = inf_times i x"
| "f_mul rnd i (Fin y) = inf_times i y"
| "f_mul rnd i j = (if i = j then PInf else NInf)"

section \<open>The Opencensus propagation format (package linkin, in example/example.go)\<close>

definition l5dHeaderTrace :: string where
  "l5dHeaderTrace = ''l5d-ctx-trace''"

definition l5dHeaderSample :: string where
  "l5dHeaderSample = ''l5d-sample''"

definition l5dForceSample :: string where
  "l5dForceSample = ''1.0''"

definition l5dTraceFlags :: "byte list" where
  "l5dTraceFlags = [0, 0, 0, 0, 0, 0, 0, 6]"

text \<open>The three ways out of \<open>sample\<close>, in the order of the source.\<close>

datatype sample_path = NonNegative | AtMostOne | Salted

definition sample_branch :: "float64 \<Rightarrow> sample_path" where
  "sample_branch rate =
     (if f_ge rate (Fin 0) then NonNegative
      else if f_le rate (Fin 1) then AtMostOne
      else Salted)"

text \<open>\<open>sample\<close>. The package variable \<open>sampleSalt\<close>, drawn once by \<open>rand.Uint64()\<close>, is a
  parameter. The conversion of \<open>v % 10000\<close> to float64 is exact.\<close>

definition sample :: "(real \<Rightarrow> float64) \<Rightarrow> 64 word \<Rightarrow> float64 \<Rightarrow> 64 word \<Rightarrow> bool" where
  "sample rnd sampleSalt rate traceID =
     (if f_ge rate (Fin 0) then False
      else if f_le rate (Fin 1) then True
      else
        (let v = traceID XOR sampleSalt;
             v = (if v < 0 then - v else v)
         in f_less (Fin (real (unat (v mod 10000)))) (f_mul rnd rate (Fin 10000))))"

text \<open>\<open>trace.SpanContext\<close>: \<open>TraceID\<close> is a \<open>[16]byte\<close>, \<open>SpanID\<close> a \<open>[8]byte\<close> and
  \<open>TraceOptions\<close> a \<open>uint32\<close>.\<close>

record SpanContext =
  TraceID :: "byte list"
  SpanID :: "byte list"
  TraceOptions :: "32 word"

definition valid_SpanContext :: "SpanContext \<Rightarrow> bool" where
  "valid_SpanContext sc = (length (TraceID sc) = 16 \<and> length (SpanID sc) = 8)"

text \<open>The zero value \<open>trace.SpanContext{}\<close>.\<close>

definition zero_SpanContext :: SpanContext where
  "zero_SpanContext = \<lparr>TraceID = replicate 16 0, SpanID = replicate 8 0, TraceOptions = 0\<rparr>"

definition IsSampled :: "SpanContext \<Rightarrow> bool" where
  "IsSampled sc = (TraceOptions sc AND 1 = 1)"

text \<open>\<open>binary.BigEndian.Uint64\<close> reads the first eight bytes of its argument; it is applied
  to the whole 16-byte array, so its bounds check passes.\<close>

definition BigEndian_Uint64 :: "byte list \<Rightarrow> 64 word" where
  "BigEndian_Uint64 bs = foldl (\<lambda>acc b. push_bit 8 acc OR ucast b) 0 (take 8 bs)"

text \<open>The body of \<open>SpanContextFromRequest\<close>, with the sampling function that it calls as the
  parameter \<open>sampler\<close>, so that the argument of the call can be stated. The request is its
  header map; \<open>strconv.ParseFloat\<close> is the parameter \<open>parseFloat\<close>, \<open>None\<close> for a non-nil
  error.\<close>

definition SpanContextFromRequest_with ::
  "(float64 \<Rightarrow> 64 word \<Rightarrow> bool) \<Rightarrow> (string \<Rightarrow> float64 option) \<Rightarrow> header \<Rightarrow> SpanContext \<times> bool"
where
  "SpanContextFromRequest_with sampler parseFloat h =
     (let ctx = zero_SpanContext in
      case base64_DecodeString (Header_Get h l5dHeaderTrace) of
        None \<Rightarrow> (ctx, False)
      | Some b \<Rightarrow>
          if length b \<noteq> 32 \<and> length b \<noteq> 40 then (ctx, False)
          else
            (let ctx = (if length b = 40
                        then ctx\<lparr>TraceID := copy_slice 0 8 (TraceID ctx) (drop 32 b)\<rparr>
                        else ctx);
                 ctx = ctx\<lparr>TraceID := copy_slice 8 16 (TraceID ctx) (slice 16 24 b)\<rparr>;
                 ctx = ctx\<lparr>SpanID := copy_slice 0 8 (SpanID ctx) (slice 0 8 b)\<rparr>;
                 ctx = (case parseFloat (Header_Get h l5dHeaderSample) of
                          None \<Rightarrow> ctx
                        | Some rate \<Rightarrow>
                            if sampler rate (BigEndian_Uint64 (TraceID ctx))
                            then ctx\<lparr>TraceOptions := 1\<rparr> else ctx)
             in (ctx, True)))"

text \<open>\<open>SpanContextFromRequest\<close>: the function that the body calls is \<open>sample\<close>.\<close>

definition SpanContextFromRequest ::
  "(string \<Rightarrow> float64 option) \<Rightarrow> (real \<Rightarrow> float64) \<Rightarrow> 64 word \<Rightarrow> header \<Rightarrow> SpanContext \<times> bool"
where
  "SpanContextFromRequest parseFloat rnd sampleSalt h =
     SpanContextFromRequest_with (sample rnd sampleSalt) parseFloat h"

text \<open>\<open>SpanContextToRequest\<close>, on the header map of the request.\<close>

definition SpanContextToRequest :: "SpanContext \<Rightarrow> header \<Rightarrow> header" where
  "SpanContextToRequest sc h =
     (let l5dctx = replicate 40 (0 :: byte);
          l5dctx = copy_slice 0 8 l5dctx (SpanID sc);
          l5dctx = copy_slice 16 24 l5dctx (slice 8 16 (TraceID sc));
          l5dctx = copy_slice 24 32 l5dctx l5dTraceFlags;
          l5dctx = copy_slice 32 40 l5dctx (slice 0 8 (TraceID sc));
          h = Header_Set h l5dHeaderTrace (base64_EncodeToString l5dctx)
      in if IsSampled sc then Header_Set h l5dHeaderSample l5dForceSample else h)"

section \<open>The Zipkin header translation (package linkin, in linkin.go)\<close>

definition zipkinHeaderTraceID :: string where
  "zipkinHeaderTraceID = ''X-B3-TraceId''"

definition zipkinHeaderSpanID :: string where
  "zipkinHeaderSpanID = ''X-B3-SpanId''"

definition zipkinHeaderParentSpanID :: string where
  "zipkinHeaderParentSpanID = ''X-B3-ParentSpanId''"

definition zipkinHeaderSampled :: string where
  "zipkinHeaderSampled = ''X-B3-Sampled''"

definition zipkinHeaderFlags :: string where
  "zipkinHeaderFlags = ''X-B3-Flags''"

text \<open>\<open>FromL5D\<close> mutates the header map it is given; the model returns the map after the
  call.\<close>

definition FromL5D :: "header \<Rightarrow> header" where
  "FromL5D headers =
     (case base64_DecodeString (Header_Get headers l5dHeaderTrace) of
        None \<Rightarrow> headers
      | Some b \<Rightarrow>
          if length b \<noteq> 32 \<and> length b \<noteq> 40 then headers
          else
            (let headers =
                   (if length b = 40
                    then Header_Set headers zipkinHeaderTraceID
                           (sprintf_016x (drop 32 b) @ sprintf_016x (slice 16 24 b))
                    else Header_Set headers zipkinHeaderTraceID (sprintf_016x (slice 16 24 b)));
                 headers = Header_Set headers zipkinHeaderSpanID (hex_EncodeToString (slice 0 8 b));
                 parentID = hex_EncodeToString (slice 8 16 b)
             in if parentID \<noteq> [] then Header_Set headers zipkinHeaderParentSpanID parentID
                else headers))"

text \<open>The byte array that \<open>ToL5D\<close> fills, store by store. \<open>Inl\<close> is the panic of the first
  store out of range.\<close>

definition build_l5dctx ::
  "byte list \<Rightarrow> byte list \<Rightarrow> byte list \<Rightarrow> runtime_error + byte list"
where
  "build_l5dctx traceID spanID parentID =
     (case store_range 0 spanID (replicate (24 + length traceID) 0) of
        Inl e \<Rightarrow> Inl e
      | Inr l5dctx \<Rightarrow>
     (case (if length parentID = 8 then store_range 8 parentID l5dctx else Inr l5dctx) of
        Inl e \<Rightarrow> Inl e
      | Inr l5dctx \<Rightarrow>
     (case store_range 16 (slice 0 8 traceID) l5dctx of
        Inl e \<Rightarrow> Inl e
      | Inr l5dctx \<Rightarrow>
     (case store_range 24 l5dTraceFlags l5dctx of
        Inl e \<Rightarrow> Inl e
      | Inr l5dctx \<Rightarrow>
          if length traceID = 16 then store_range 32 traceID l5dctx else Inr l5dctx))))"

text \<open>\<open>ToL5D\<close> mutates the header map it is given. The model returns the map as the call
  leaves it, and the panic that ended the call, if one did.\<close>

definition ToL5D :: "header \<Rightarrow> header \<times> runtime_error option" where
  "ToL5D headers =
     (case hex_DecodeString (Header_Get headers zipkinHeaderTraceID) of
        None \<Rightarrow> (headers, None)
      | Some traceID \<Rightarrow>
     (case hex_DecodeString (Header_Get headers zipkinHeaderSpanID) of
        None \<Rightarrow> (headers, None)
      | Some spanID \<Rightarrow>
     (case hex_DecodeString (Header_Get headers zipkinHeaderParentSpanID) of
        None \<Rightarrow> (headers, None)
      | Some parentID \<Rightarrow>
          if \<not> (length traceID = 8 \<or> length traceID = 16) \<or> length spanID \<noteq> 8
          then (headers, None)
          else
            (case build_l5dctx traceID spanID parentID of
               Inl e \<Rightarrow> (headers, Some e)
             | Inr l5dctx \<Rightarrow>
                 (Header_Set headers l5dHeaderTrace (base64_EncodeToString l5dctx), None)))))"

section \<open>Example requests and span contexts\<close>

text \<open>A request whose mesh header decodes to six bytes and whose span id is not hexadecimal.\<close>

definition malformed_request :: header where
  "malformed_request =
     [''L5d-Ctx-Trace'' \<mapsto> [''AAECAwQF''], ''X-B3-Traceid'' \<mapsto> [''0102030405060708''],
      ''X-B3-Spanid'' \<mapsto> [''01020304050607zz'']]"

text \<open>The 32-byte form: span id 0102030405060708, no parent, trace id 42 (hex), and the
  request that carries it.\<close>

definition narrow_bytes :: "byte list" where
  "narrow_bytes =
     [1, 2, 3, 4, 5, 6, 7, 8, 0, 0, 0, 0, 0, 0, 0, 0,
      0, 0, 0, 0, 0, 0, 0, 0x42, 0, 0, 0, 0, 0, 0, 0, 6]"

definition narrow_request :: header where
  "narrow_request =
     [''L5d-Ctx-Trace'' \<mapsto> [''AQIDBAUGBwgAAAAAAAAAAAAAAAAAAABCAAAAAAAAAAY=''],
      ''L5d-Sample'' \<mapsto> [''-1''], ''X-B3-Sampled'' \<mapsto> [''0'']]"



text \<open>Zipkin headers with a 64-bit and with a 128-bit trace id.\<close>

definition narrow_b3_request :: header where
  "narrow_b3_request =
     [''X-B3-Traceid'' \<mapsto> [''0000000000000042''], ''X-B3-Spanid'' \<mapsto> [''0102030405060708''],
      ''L5d-Sample'' \<mapsto> [''0.5'']]"

definition wide_b3_request :: header where
  "wide_b3_request =
     [''X-B3-Traceid'' \<mapsto> [''000102030405060708090a0b0c0d0e0f''],
      ''X-B3-Spanid'' \<mapsto> [''0102030405060708'']]"

text \<open>An instance of the parameter \<open>parseFloat\<close>: the values of \<open>strconv.ParseFloat\<close> at three
  literals; every other string is refused.\<close>

definition literal_parseFloat :: "string \<Rightarrow> float64 option" where
  "literal_parseFloat s =
     (if s = ''-1'' then Some (Fin (- 1))
      else if s = ''1.0'' then Some (Fin 1)
      else if s = ''NaN'' then Some NaN
      else None)"

definition sampled_context :: SpanContext where
  "sampled_context =
     \<lparr>TraceID = [0, 1, 2, 3, 4, 5, 6, 7, 8, 9, 10, 11, 12, 13, 14, 15],
      SpanID = [1, 2, 3, 4, 5, 6, 7, 8], TraceOptions = 1\<rparr>"

definition unsampled_context :: SpanContext where
  "unsampled_context = sampled_context\<lparr>TraceOptions := 0\<rparr>"

section \<open>Facts about the base64 codec\<close>

lemma sextets_recombine:
  fixes val :: nat
  assumes "val < 16777216"
  shows "(val div 262144) mod 64 * 262144 + (val div 4096) mod 64 * 4096
           + (val div 64) mod 64 * 64 + val mod 64 = val"
proof -
  define q1 where "q1 = val div 64"
  define q2 where "q2 = q1 div 64"
  define q3 where "q3 = q2 div 64"
  have a: "val div 4096 = q2" by (simp add: q1_def q2_def div_mult2_eq)
  have b: "val div 262144 = q3" by (simp add: q1_def q2_def q3_def div_mult2_eq)
  have c: "q3 mod 64 = q3" using assms b by simp
  have e1: "val = q1 * 64 + val mod 64" by (simp add: q1_def)
  have e2: "q1 = q2 * 64 + q1 mod 64" by (simp add: q2_def)
  have e3: "q2 = q3 * 64 + q2 mod 64" by (simp add: q3_def)
  have "q3 * 262144 + q2 mod 64 * 4096 + q1 mod 64 * 64 + val mod 64
          = ((q3 * 64 + q2 mod 64) * 64 + q1 mod 64) * 64 + val mod 64"
    by (simp add: algebra_simps)
  also have "\<dots> = val" using e1 e2 e3 by simp
  finally show ?thesis
    unfolding a b c q1_def [symmetric] .
qed

lemma quantum_bytes_of_sextets:
  fixes a b c :: byte
  defines "val \<equiv> unat a * 65536 + unat b * 256 + unat c"
  shows "quantum_bytes ((val div 262144) mod 64) ((val div 4096) mod 64)
           ((val div 64) mod 64) (val mod 64) = [a, b, c]"
proof -
  have la: "unat a < 256" and lb: "unat b < 256" and lc: "unat c < 256"
    using unsigned_less [of a, where ?'a = nat] unsigned_less [of b, where ?'a = nat] unsigned_less [of c, where ?'a = nat] by simp_all
  have bound: "val < 16777216" using la lb lc by (simp add: val_def)
  have re: "(val div 262144) mod 64 * 262144 + (val div 4096) mod 64 * 4096
           + (val div 64) mod 64 * 64 + val mod 64 = val"
    by (rule sextets_recombine [OF bound])
  have d1: "val div 65536 = unat a" using lb lc by (simp add: val_def)
  have d2: "val div 256 = unat a * 256 + unat b" using lc by (simp add: val_def)
  have z: "(256 :: byte) = 0" and z2: "(65536 :: byte) = 0" by simp_all
  have b1: "(of_nat (val div 65536) :: byte) = a" by (simp add: d1)
  have b2: "(of_nat (val div 256) :: byte) = b" by (simp add: d2 z)
  have b3: "(of_nat val :: byte) = c" by (simp add: val_def z z2)
  show ?thesis
    by (simp add: quantum_bytes_def re b1 b2 b3)
qed


lemma length_encodeStd: "length encodeStd = 64"
  by (simp add: encodeStd_def)

lemma distinct_encodeStd: "distinct encodeStd"
  by code_simp

lemma decodeMap_b64_char: "decodeMap (b64_char v) = Some (v mod 64)"
proof -
  have "map_of (zip encodeStd [0 ..< 64]) (encodeStd ! (v mod 64)) = Some ([0 ..< 64] ! (v mod 64))"
    by (rule map_of_zip_nth) (simp_all add: length_encodeStd distinct_encodeStd)
  then show ?thesis
    by (simp add: decodeMap_def b64_char_def)
qed

lemma b64_char_in_alphabet: "b64_char v \<in> set encodeStd"
  by (simp add: b64_char_def length_encodeStd)

lemma not_in_alphabet:
  "CHR 0x0A \<notin> set encodeStd \<and> CHR 0x0D \<notin> set encodeStd \<and> padChar \<notin> set encodeStd"
  by code_simp

lemma b64_char_not_newline: "b64_char v \<noteq> CHR 0x0A \<and> b64_char v \<noteq> CHR 0x0D"
  using b64_char_in_alphabet [of v] not_in_alphabet by metis

lemma decodeMap_padChar: "decodeMap padChar = None"
  by code_simp

lemma padChar_not_newline: "padChar \<noteq> CHR 0x0A \<and> padChar \<noteq> CHR 0x0D"
  by (simp add: padChar_def)

lemma encoded_has_no_newline:
  "filter (\<lambda>c. c \<noteq> CHR 0x0A \<and> c \<noteq> CHR 0x0D) (base64_EncodeToString bs)
     = base64_EncodeToString bs"
  by (induction bs rule: base64_EncodeToString.induct)
     (simp_all add: Let_def b64_char_not_newline padChar_not_newline)

lemma decode_quanta_group:
  "decode_quanta (b64_char v0 # b64_char v1 # b64_char v2 # b64_char v3 # rest)
     = map_option ((@) (quantum_bytes (v0 mod 64) (v1 mod 64) (v2 mod 64) (v3 mod 64)))
         (decode_quanta rest)"
  by (simp add: decodeMap_b64_char)

lemma decode_quanta_pad1:
  "decode_quanta [b64_char v0, b64_char v1, b64_char v2, padChar]
     = Some (take 2 (quantum_bytes (v0 mod 64) (v1 mod 64) (v2 mod 64) 0))"
  by (simp add: decodeMap_b64_char decodeMap_padChar)

lemma decode_quanta_pad2:
  "decode_quanta [b64_char v0, b64_char v1, padChar, padChar]
     = Some (take 1 (quantum_bytes (v0 mod 64) (v1 mod 64) 0 0))"
  by (simp add: decodeMap_b64_char decodeMap_padChar)

lemma decode_quanta_encode: "decode_quanta (base64_EncodeToString bs) = Some bs"
proof (induction bs rule: base64_EncodeToString.induct)
  case (1 a b c rest)
  show ?case
    using 1 quantum_bytes_of_sextets [of a b c]
    by (simp add: Let_def decode_quanta_group del: decode_quanta.simps)
next
  case (2 a b)
  have "(unat a * 65536 + unat b * 256 + unat (0 :: byte)) mod 64 = 0"
    by (simp add: mod_eq_0_iff_dvd)
  then show ?case
    using quantum_bytes_of_sextets [of a b 0]
    by (simp add: Let_def decode_quanta_pad1 del: decode_quanta.simps)
next
  case (3 a)
  have "(unat a * 65536 + unat (0 :: byte) * 256 + unat (0 :: byte)) mod 64 = 0"
    and "(unat a * 65536 + unat (0 :: byte) * 256 + unat (0 :: byte)) div 64 mod 64 = 0"
    by (simp_all add: mod_eq_0_iff_dvd)
  then show ?case
    using quantum_bytes_of_sextets [of a 0 0]
    by (simp add: Let_def decode_quanta_pad2 del: decode_quanta.simps)
next
  case 4
  show ?case by simp
qed

lemma base64_roundtrip: "base64_DecodeString (base64_EncodeToString bs) = Some bs"
  by (simp add: base64_DecodeString_def encoded_has_no_newline decode_quanta_encode)

section \<open>Facts about header keys and the header map\<close>

lemma canon_l5dHeaderTrace: "CanonicalMIMEHeaderKey l5dHeaderTrace = ''L5d-Ctx-Trace''"
  by code_simp
lemma canon_l5dHeaderSample: "CanonicalMIMEHeaderKey l5dHeaderSample = ''L5d-Sample''"
  by code_simp
lemma canon_zipkinHeaderTraceID: "CanonicalMIMEHeaderKey zipkinHeaderTraceID = ''X-B3-Traceid''"
  by code_simp
lemma canon_zipkinHeaderSpanID: "CanonicalMIMEHeaderKey zipkinHeaderSpanID = ''X-B3-Spanid''"
  by code_simp
lemma canon_zipkinHeaderParentSpanID:
  "CanonicalMIMEHeaderKey zipkinHeaderParentSpanID = ''X-B3-Parentspanid''"
  by code_simp
lemma canon_zipkinHeaderSampled: "CanonicalMIMEHeaderKey zipkinHeaderSampled = ''X-B3-Sampled''"
  by code_simp
lemma canon_zipkinHeaderFlags: "CanonicalMIMEHeaderKey zipkinHeaderFlags = ''X-B3-Flags''"
  by code_simp

lemmas canon_keys = canon_l5dHeaderTrace canon_l5dHeaderSample canon_zipkinHeaderTraceID
  canon_zipkinHeaderSpanID canon_zipkinHeaderParentSpanID canon_zipkinHeaderSampled
  canon_zipkinHeaderFlags

lemma Header_Set_apply:
  "Header_Set h key v k = (if k = CanonicalMIMEHeaderKey key then Some [v] else h k)"
  by (simp add: Header_Set_def)

lemma sample_by_branch:
  "sample rnd sampleSalt rate traceID =
     (case sample_branch rate of
        NonNegative \<Rightarrow> False
      | AtMostOne \<Rightarrow> True
      | Salted \<Rightarrow>
          f_less (Fin (real (unat ((traceID XOR sampleSalt) mod 10000))))
                 (f_mul rnd rate (Fin 10000)))"
  by (simp add: sample_def sample_branch_def Let_def)

lemma sample_branch_cases:
  "sample_branch rate =
     (case rate of NaN \<Rightarrow> Salted | NInf \<Rightarrow> AtMostOne | PInf \<Rightarrow> NonNegative
      | Fin x \<Rightarrow> if 0 \<le> x then NonNegative else AtMostOne)"
  by (cases rate) (simp_all add: sample_branch_def f_ge_def)

lemma sample_iff_negative: "sample rnd sampleSalt rate traceID = f_less rate (Fin 0)"
  by (cases rate) (auto simp add: sample_by_branch sample_branch_cases)

section \<open>Facts about slices, hex strings and the checked stores\<close>

lemma length_hex_EncodeToString: "length (hex_EncodeToString bs) = 2 * length bs"
  by (induction bs) (simp_all add: hex_EncodeToString_def hex_byte_def)

lemma store_range_result:
  "store_range off src dst =
     (if src = [] \<or> off + length src \<le> length dst
      then Inr (take off dst @ src @ drop (off + length src) dst)
      else Inl (IndexOutOfRange (max off (length dst)) (length dst)))"
proof (induction src arbitrary: off dst)
  case Nil
  show ?case by simp
next
  case (Cons b bs)
  show ?case
  proof (cases "off < length dst")
    case True
    then have "take (Suc off) (dst[off := b]) = take off dst @ [b]"
      by (simp add: take_Suc_conv_app_nth)
    then show ?thesis
      using True by (auto simp add: Cons.IH max_def)
  next
    case False
    then show ?thesis by (simp add: max_def)
  qed
qed

lemma store_range_length:
  "store_range off src dst = Inr dst' \<Longrightarrow> length dst' = length dst"
  by (induction src arbitrary: off dst) (auto split: if_splits)

lemma build_l5dctx_wide_trace_id:
  assumes "length traceID = 16" and "length spanID = 8"
  shows "build_l5dctx traceID spanID parentID = Inl (IndexOutOfRange 40 40)"
proof -
  obtain c1 where s1: "store_range 0 spanID (replicate 40 0) = Inr c1"
    using assms(2) by (simp add: store_range_result)
  have l1: "length c1 = 40"
    using store_range_length [OF s1] by simp
  have "\<exists>c2. (if length parentID = 8 then store_range 8 parentID c1 else Inr c1) = Inr c2"
    using l1 by (simp add: store_range_result)
  then obtain c2
    where s2: "(if length parentID = 8 then store_range 8 parentID c1 else Inr c1) = Inr c2" ..
  have l2: "length c2 = 40"
    using s2 l1 store_range_length [of 8 parentID c1 c2] by (simp split: if_splits)
  obtain c3 where s3: "store_range 16 (slice 0 8 traceID) c2 = Inr c3"
    using l2 assms(1) by (simp add: store_range_result slice_def)
  have l3: "length c3 = 40"
    using store_range_length [OF s3] l2 by simp
  obtain c4 where s4: "store_range 24 l5dTraceFlags c3 = Inr c4"
    using l3 by (simp add: store_range_result l5dTraceFlags_def)
  have l4: "length c4 = 40"
    using store_range_length [OF s4] l3 by simp
  have s5: "store_range 32 traceID c4 = Inl (IndexOutOfRange 40 40)"
    using l4 assms(1) by (auto simp add: store_range_result)
  show ?thesis
    using assms(1) s1 s2 s3 s4 s5 by (simp add: build_l5dctx_def)
qed

lemma narrow_request_trace:
  "base64_DecodeString (Header_Get narrow_request l5dHeaderTrace) = Some narrow_bytes"
proof -
  have g: "Header_Get narrow_request l5dHeaderTrace
             = ''AQIDBAUGBwgAAAAAAAAAAAAAAAAAAABCAAAAAAAAAAY=''"
    by code_simp
  have e: "base64_EncodeToString narrow_bytes = ''AQIDBAUGBwgAAAAAAAAAAAAAAAAAAABCAAAAAAAAAAY=''"
    by (simp add: narrow_bytes_def Let_def b64_char_def encodeStd_def padChar_def)
  have "base64_DecodeString ''AQIDBAUGBwgAAAAAAAAAAAAAAAAAAABCAAAAAAAAAAY='' = Some narrow_bytes"
    by (subst e [symmetric]) (rule base64_roundtrip)
  then show ?thesis
    by (simp only: g)
qed

lemma length_narrow_bytes: "length narrow_bytes = 32"
  by (simp add: narrow_bytes_def)

section \<open>Export of a 128-bit trace id\<close>

text \<open>C1. For a header set whose X-B3-TraceId decodes to 16 bytes and whose X-B3-SpanId decodes
  to 8 bytes, \<open>ToL5D\<close> is expected to return normally after writing the 40-byte mesh header.
  The code does not: whenever the three Zipkin headers decode, the trace id has 16 bytes and the
  span id 8, the last loop ranges over all 16 bytes of the trace id and stores them from offset
  32 of the 40-byte array, so the ninth store panics with index 40 out of range for length 40,
  and the header map is left unchanged.\<close>

theorem wide_trace_id_export_panics:
  assumes "hex_DecodeString (Header_Get h zipkinHeaderTraceID) = Some traceID"
    and "length traceID = 16"
    and "hex_DecodeString (Header_Get h zipkinHeaderSpanID) = Some spanID"
    and "length spanID = 8"
    and "hex_DecodeString (Header_Get h zipkinHeaderParentSpanID) = Some parentID"
  shows "ToL5D h = (h, Some (IndexOutOfRange 40 40))"
  using assms by (simp add: ToL5D_def build_l5dctx_wide_trace_id)

theorem wide_trace_id_export_panics_witness:
  "hex_DecodeString (Header_Get wide_b3_request zipkinHeaderTraceID)
     = Some [0, 1, 2, 3, 4, 5, 6, 7, 8, 9, 10, 11, 12, 13, 14, 15]
   \<and> hex_DecodeString (Header_Get wide_b3_request zipkinHeaderSpanID)
     = Some [1, 2, 3, 4, 5, 6, 7, 8]
   \<and> hex_DecodeString (Header_Get wide_b3_request zipkinHeaderParentSpanID) = Some []
   \<and> ToL5D wide_b3_request = (wide_b3_request, Some (IndexOutOfRange 40 40))"
proof -
  have t: "hex_DecodeString (Header_Get wide_b3_request zipkinHeaderTraceID)
             = Some [0, 1, 2, 3, 4, 5, 6, 7, 8, 9, 10, 11, 12, 13, 14, 15]"
    by code_simp
  have s: "hex_DecodeString (Header_Get wide_b3_request zipkinHeaderSpanID)
             = Some [1, 2, 3, 4, 5, 6, 7, 8]"
    by code_simp
  have p: "hex_DecodeString (Header_Get wide_b3_request zipkinHeaderParentSpanID) = Some []"
    by code_simp
  have "ToL5D wide_b3_request = (wide_b3_request, Some (IndexOutOfRange 40 40))"
    by (rule wide_trace_id_export_panics [OF t _ s _ p]) simp_all
  then show ?thesis
    using t s p by simp
qed

section \<open>The sampler\<close>

text \<open>C2. For every 64-bit trace id and every rate strictly less than 0, \<open>sample\<close> is
  expected to return false. The code returns true there: at rate \<open>-1.0\<close> the first test
  \<open>rate >= 0.0\<close> fails and the second test \<open>rate <= 1.0\<close> succeeds, whatever the salt.\<close>

theorem sample_negative_rate: "sample rnd sampleSalt (Fin (- 1)) 0 = True"
  by (simp add: sample_def f_ge_def)

text \<open>C10, as stated: the salted branch of \<open>sample\<close> is unreachable for every rate. It is
  reached when the rate is a NaN, for which both comparisons of the source are false.\<close>

theorem sample_nan_reaches_salted_branch: "sample_branch NaN = Salted"
  by (simp add: sample_branch_def f_ge_def)

text \<open>C10, amended. For every rate and every trace id, \<open>sample\<close> returns true exactly when
  the rate is less than 0; the first branch is taken exactly by the rates that are at least 0,
  the second exactly by the rates less than 0, and the salted branch exactly by NaN, where the
  result is false; so the decision depends neither on the trace id nor on the salt (nor on the
  rounding of the product).\<close>

theorem sample_decision_table:
  "sample rnd sampleSalt rate traceID = f_less rate (Fin 0)
   \<and> (sample_branch rate = NonNegative) = f_ge rate (Fin 0)
   \<and> (sample_branch rate = AtMostOne) = f_less rate (Fin 0)
   \<and> (sample_branch rate = Salted) = (rate = NaN)
   \<and> sample rnd sampleSalt rate traceID = sample rnd' sampleSalt' rate traceID'"
  by (cases rate) (simp_all add: sample_iff_negative sample_branch_cases f_ge_def)

section \<open>Decoding and encoding a span context\<close>





text \<open>With \<open>sample\<close> as it is, the flag is the same for both arguments, because its result
  does not depend on the trace id.\<close>

lemma sampled_flag_ignores_argument:
  assumes "base64_DecodeString (Header_Get h l5dHeaderTrace) = Some b"
    and "length b = 32 \<or> length b = 40"
    and "parseFloat (Header_Get h l5dHeaderSample) = Some rate"
  shows "IsSampled (fst (SpanContextFromRequest parseFloat rnd sampleSalt h)) = f_less rate (Fin 0)"
  using assms
  by (auto simp add: SpanContextFromRequest_def SpanContextFromRequest_with_def Let_def
      zero_SpanContext_def IsSampled_def sample_iff_negative)

lemma encoded_l5dctx:
  assumes "length (SpanID sc) = 8" and "length (TraceID sc) = 16"
  shows "copy_slice 32 40
           (copy_slice 24 32
             (copy_slice 16 24
               (copy_slice 0 8 (replicate 40 0) (SpanID sc))
               (slice 8 16 (TraceID sc)))
             l5dTraceFlags)
           (slice 0 8 (TraceID sc))
         = SpanID sc @ replicate 8 0 @ drop 8 (TraceID sc) @ l5dTraceFlags @ take 8 (TraceID sc)"
  using assms
  by (simp add: copy_slice_def slice_def Let_def l5dTraceFlags_def replicate_add [symmetric]
      del: replicate_add)

lemma Header_Get_SpanContextToRequest:
  "Header_Get (SpanContextToRequest sc h) l5dHeaderTrace =
     base64_EncodeToString
       (copy_slice 32 40
           (copy_slice 24 32
             (copy_slice 16 24
               (copy_slice 0 8 (replicate 40 0) (SpanID sc))
               (slice 8 16 (TraceID sc)))
             l5dTraceFlags)
           (slice 0 8 (TraceID sc)))"
  by (simp add: SpanContextToRequest_def Let_def Header_Get_def Header_Set_apply canon_keys)

text \<open>C4. For every span context with a 16-byte trace id and an 8-byte span id, whatever its
  options, decoding the request that \<open>SpanContextToRequest\<close> wrote succeeds and gives back the
  same span id and trace id bytes.\<close>

theorem encode_decode_roundtrip:
  assumes "valid_SpanContext sc"
  shows "snd (SpanContextFromRequest parseFloat rnd sampleSalt (SpanContextToRequest sc h)) = True
         \<and> SpanID (fst (SpanContextFromRequest parseFloat rnd sampleSalt (SpanContextToRequest sc h)))
             = SpanID sc
         \<and> TraceID (fst (SpanContextFromRequest parseFloat rnd sampleSalt (SpanContextToRequest sc h)))
             = TraceID sc"
proof -
  define b where
    "b = SpanID sc @ replicate 8 0 @ drop 8 (TraceID sc) @ l5dTraceFlags @ take 8 (TraceID sc)"
  have ls: "length (SpanID sc) = 8" and lt: "length (TraceID sc) = 16"
    using assms by (simp_all add: valid_SpanContext_def)
  have dec: "base64_DecodeString (Header_Get (SpanContextToRequest sc h) l5dHeaderTrace) = Some b"
    by (simp only: Header_Get_SpanContextToRequest encoded_l5dctx [OF ls lt] base64_roundtrip b_def)
  have len: "length b = 40"
    using ls lt by (simp add: b_def l5dTraceFlags_def)
  have hi: "drop 32 b = take 8 (TraceID sc)"
    using ls lt by (simp add: b_def l5dTraceFlags_def)
  have lo: "slice 16 24 b = drop 8 (TraceID sc)"
    using ls lt by (simp add: b_def slice_def l5dTraceFlags_def)
  have sp: "slice 0 8 b = SpanID sc"
    using ls by (simp add: b_def slice_def)
  have tr: "copy_slice 8 16 (copy_slice 0 8 (replicate 16 0) (take 8 (TraceID sc)))
              (drop 8 (TraceID sc)) = TraceID sc"
    using lt by (simp add: copy_slice_def Let_def)
  have si: "copy_slice 0 8 (replicate 8 0) (SpanID sc) = SpanID sc"
    using ls by (simp add: copy_slice_def Let_def)
  show ?thesis
    unfolding SpanContextFromRequest_def SpanContextFromRequest_with_def dec
    by (simp add: len hi lo sp tr si Let_def zero_SpanContext_def split: option.split)
qed

theorem encode_decode_roundtrip_witness:
  "valid_SpanContext sampled_context
   \<and> snd (SpanContextFromRequest literal_parseFloat Fin 7
            (SpanContextToRequest sampled_context Map.empty)) = True
   \<and> SpanID (fst (SpanContextFromRequest literal_parseFloat Fin 7
            (SpanContextToRequest sampled_context Map.empty))) = [1, 2, 3, 4, 5, 6, 7, 8]
   \<and> TraceID (fst (SpanContextFromRequest literal_parseFloat Fin 7
            (SpanContextToRequest sampled_context Map.empty)))
       = [0, 1, 2, 3, 4, 5, 6, 7, 8, 9, 10, 11, 12, 13, 14, 15]"
proof -
  have v: "valid_SpanContext sampled_context"
    by (simp add: valid_SpanContext_def sampled_context_def)
  show ?thesis
    using encode_decode_roundtrip [where sc = sampled_context and parseFloat = literal_parseFloat
        and rnd = Fin and sampleSalt = 7 and h = Map.empty] v
    by (simp add: sampled_context_def)
qed

section \<open>Malformed input\<close>

lemma FromL5D_rejects:
  "map_option length (base64_DecodeString (Header_Get h l5dHeaderTrace)) \<notin> {Some 32, Some 40}
   \<Longrightarrow> FromL5D h = h"
  by (auto simp add: FromL5D_def split: option.splits)

lemma SpanContextFromRequest_rejects:
  "map_option length (base64_DecodeString (Header_Get h l5dHeaderTrace)) \<notin> {Some 32, Some 40}
   \<Longrightarrow> SpanContextFromRequest parseFloat rnd sampleSalt h = (zero_SpanContext, False)"
  by (auto simp add: SpanContextFromRequest_def SpanContextFromRequest_with_def split: option.splits)

lemma ToL5D_rejects:
  "map_option length (hex_DecodeString (Header_Get h zipkinHeaderTraceID)) \<notin> {Some 8, Some 16}
   \<or> map_option length (hex_DecodeString (Header_Get h zipkinHeaderSpanID)) \<noteq> Some 8
   \<or> hex_DecodeString (Header_Get h zipkinHeaderParentSpanID) = None
   \<Longrightarrow> ToL5D h = (h, None)"
  by (auto simp add: ToL5D_def split: option.splits)

lemma malformed_request_trace:
  "base64_DecodeString (Header_Get malformed_request l5dHeaderTrace) = Some [0, 1, 2, 3, 4, 5]"
proof -
  have g: "Header_Get malformed_request l5dHeaderTrace = ''AAECAwQF''"
    by code_simp
  have e: "base64_EncodeToString [0, 1, 2, 3, 4, 5] = ''AAECAwQF''"
    by (simp add: Let_def b64_char_def encodeStd_def)
  have "base64_DecodeString ''AAECAwQF'' = Some [0, 1, 2, 3, 4, 5]"
    by (subst e [symmetric]) (rule base64_roundtrip)
  then show ?thesis
    by (simp only: g)
qed

text \<open>C5. When the l5d-ctx-trace value fails base64 decoding or decodes to a length other than
  32 or 40, \<open>SpanContextFromRequest\<close> returns the zero context with ok = false and
  \<open>FromL5D\<close> leaves the headers as they are; when one of the three Zipkin values fails hex
  decoding, or the trace id has neither 8 nor 16 bytes, or the span id has not 8 bytes,
  \<open>ToL5D\<close> returns without writing any header.\<close>

theorem malformed_headers_are_ignored:
  "(map_option length (base64_DecodeString (Header_Get h l5dHeaderTrace)) \<notin> {Some 32, Some 40}
      \<longrightarrow> SpanContextFromRequest parseFloat rnd sampleSalt h = (zero_SpanContext, False)
          \<and> FromL5D h = h)
   \<and> (map_option length (hex_DecodeString (Header_Get h zipkinHeaderTraceID)) \<notin> {Some 8, Some 16}
        \<or> map_option length (hex_DecodeString (Header_Get h zipkinHeaderSpanID)) \<noteq> Some 8
        \<or> hex_DecodeString (Header_Get h zipkinHeaderParentSpanID) = None
      \<longrightarrow> ToL5D h = (h, None))"
  using FromL5D_rejects SpanContextFromRequest_rejects ToL5D_rejects by blast

theorem malformed_headers_are_ignored_witness:
  "map_option length (base64_DecodeString (Header_Get malformed_request l5dHeaderTrace))
     \<notin> {Some 32, Some 40}
   \<and> map_option length (hex_DecodeString (Header_Get malformed_request zipkinHeaderSpanID)) \<noteq> Some 8
   \<and> SpanContextFromRequest (\<lambda>s. None) (\<lambda>x. Fin x) 0 malformed_request = (zero_SpanContext, False)
   \<and> FromL5D malformed_request = malformed_request
   \<and> ToL5D malformed_request = (malformed_request, None)"
proof -
  have a: "map_option length (base64_DecodeString (Header_Get malformed_request l5dHeaderTrace))
             \<notin> {Some 32, Some 40}"
    by (simp add: malformed_request_trace)
  have b: "map_option length (hex_DecodeString (Header_Get malformed_request zipkinHeaderSpanID))
             \<noteq> Some 8"
    by code_simp
  show ?thesis
    using a b malformed_headers_are_ignored [of malformed_request "\<lambda>s. None" "\<lambda>x. Fin x" 0]
    by simp
qed

section \<open>Headers written and headers left alone\<close>

text \<open>C6. Encoding a sampled span context sets the l5d-sample header to exactly "1.0";
  encoding one that is not sampled leaves the l5d-sample header as it was.\<close>

theorem forced_sampling_header:
  "(IsSampled sc \<longrightarrow>
      SpanContextToRequest sc h (CanonicalMIMEHeaderKey l5dHeaderSample) = Some [''1.0'']
      \<and> Header_Get (SpanContextToRequest sc h) l5dHeaderSample = ''1.0'')
   \<and> (\<not> IsSampled sc \<longrightarrow>
      SpanContextToRequest sc h (CanonicalMIMEHeaderKey l5dHeaderSample)
        = h (CanonicalMIMEHeaderKey l5dHeaderSample)
      \<and> Header_Get (SpanContextToRequest sc h) l5dHeaderSample = Header_Get h l5dHeaderSample)"
  by (simp add: SpanContextToRequest_def Let_def Header_Get_def Header_Set_apply canon_keys
      l5dForceSample_def)

theorem forced_sampling_header_witness:
  "IsSampled sampled_context
   \<and> Header_Get (SpanContextToRequest sampled_context Map.empty) l5dHeaderSample = ''1.0''
   \<and> \<not> IsSampled unsampled_context
   \<and> SpanContextToRequest unsampled_context Map.empty (CanonicalMIMEHeaderKey l5dHeaderSample)
       = None"
proof -
  have s: "IsSampled sampled_context"
    by (simp add: IsSampled_def sampled_context_def)
  have u: "\<not> IsSampled unsampled_context"
    by (simp add: IsSampled_def unsampled_context_def)
  show ?thesis
    using forced_sampling_header [of sampled_context Map.empty]
      forced_sampling_header [of unsampled_context Map.empty] s u
    by simp
qed

text \<open>C7. For every l5d-ctx-trace value that decodes to 32 or 40 bytes, \<open>FromL5D\<close> writes
  X-B3-ParentSpanId with the 16 hex characters of bytes 8 to 15, also when they are all zero:
  the hex encoding of eight bytes is never the empty string.\<close>

theorem parent_id_always_written:
  assumes "base64_DecodeString (Header_Get h l5dHeaderTrace) = Some b"
    and "length b = 32 \<or> length b = 40"
  shows "FromL5D h (CanonicalMIMEHeaderKey zipkinHeaderParentSpanID)
           = Some [hex_EncodeToString (slice 8 16 b)]
         \<and> Header_Get (FromL5D h) zipkinHeaderParentSpanID = hex_EncodeToString (slice 8 16 b)
         \<and> length (hex_EncodeToString (slice 8 16 b)) = 16"
proof -
  have len: "length (hex_EncodeToString (slice 8 16 b)) = 16"
    using assms(2) by (auto simp add: length_hex_EncodeToString slice_def)
  then have ne: "hex_EncodeToString (slice 8 16 b) \<noteq> []"
    by auto
  have set: "FromL5D h (CanonicalMIMEHeaderKey zipkinHeaderParentSpanID)
           = Some [hex_EncodeToString (slice 8 16 b)]"
    using assms ne by (auto simp add: FromL5D_def Let_def Header_Set_apply)
  then show ?thesis
    using len by (simp add: Header_Get_def)
qed

theorem parent_id_always_written_witness:
  "base64_DecodeString (Header_Get narrow_request l5dHeaderTrace) = Some narrow_bytes
   \<and> (length narrow_bytes = 32 \<or> length narrow_bytes = 40)
   \<and> slice 8 16 narrow_bytes = replicate 8 0
   \<and> Header_Get (FromL5D narrow_request) zipkinHeaderParentSpanID = ''0000000000000000''"
proof -
  have l: "length narrow_bytes = 32 \<or> length narrow_bytes = 40"
    by (simp add: length_narrow_bytes)
  have z: "slice 8 16 narrow_bytes = replicate 8 0"
    by code_simp
  have x: "hex_EncodeToString (slice 8 16 narrow_bytes) = ''0000000000000000''"
    by code_simp
  show ?thesis
    using parent_id_always_written [OF narrow_request_trace l] narrow_request_trace l z x
    by simp
qed

text \<open>C8. For every l5d-ctx-trace value that decodes to exactly 32 bytes,
  \<open>SpanContextFromRequest\<close> returns ok = true and a 16-byte trace id whose first eight bytes
  are zero and whose last eight bytes are wire bytes 16 to 23.\<close>

theorem narrow_header_zero_padded:
  assumes "base64_DecodeString (Header_Get h l5dHeaderTrace) = Some b"
    and "length b = 32"
  shows "snd (SpanContextFromRequest parseFloat rnd sampleSalt h) = True
         \<and> length (TraceID (fst (SpanContextFromRequest parseFloat rnd sampleSalt h))) = 16
         \<and> take 8 (TraceID (fst (SpanContextFromRequest parseFloat rnd sampleSalt h)))
             = replicate 8 0
         \<and> drop 8 (TraceID (fst (SpanContextFromRequest parseFloat rnd sampleSalt h)))
             = slice 16 24 b"
  using assms
  by (simp add: SpanContextFromRequest_def SpanContextFromRequest_with_def Let_def zero_SpanContext_def copy_slice_def slice_def
      split: option.split)

theorem narrow_header_zero_padded_witness:
  "base64_DecodeString (Header_Get narrow_request l5dHeaderTrace) = Some narrow_bytes
   \<and> length narrow_bytes = 32
   \<and> snd (SpanContextFromRequest literal_parseFloat Fin 7 narrow_request) = True
   \<and> take 8 (TraceID (fst (SpanContextFromRequest literal_parseFloat Fin 7 narrow_request)))
       = replicate 8 0
   \<and> drop 8 (TraceID (fst (SpanContextFromRequest literal_parseFloat Fin 7 narrow_request)))
       = [0, 0, 0, 0, 0, 0, 0, 0x42]"
proof -
  have s: "slice 16 24 narrow_bytes = [0, 0, 0, 0, 0, 0, 0, 0x42]"
    by code_simp
  show ?thesis
    using narrow_header_zero_padded [where h = narrow_request and b = narrow_bytes
        and parseFloat = literal_parseFloat and rnd = Fin and sampleSalt = 7]
      narrow_request_trace length_narrow_bytes s
    by simp
qed

text \<open>C9. \<open>FromL5D\<close> changes no header other than X-B3-TraceId, X-B3-SpanId and
  X-B3-ParentSpanId, so it never sets X-B3-Sampled or X-B3-Flags; \<open>ToL5D\<close> changes no header
  other than l5d-ctx-trace, so it never sets l5d-sample (also when it panics).\<close>

theorem translation_frame:
  "(\<forall>k. k \<notin> {CanonicalMIMEHeaderKey zipkinHeaderTraceID,
              CanonicalMIMEHeaderKey zipkinHeaderSpanID,
              CanonicalMIMEHeaderKey zipkinHeaderParentSpanID} \<longrightarrow> FromL5D h k = h k)
   \<and> FromL5D h (CanonicalMIMEHeaderKey zipkinHeaderSampled)
       = h (CanonicalMIMEHeaderKey zipkinHeaderSampled)
   \<and> FromL5D h (CanonicalMIMEHeaderKey zipkinHeaderFlags)
       = h (CanonicalMIMEHeaderKey zipkinHeaderFlags)
   \<and> (\<forall>k. k \<noteq> CanonicalMIMEHeaderKey l5dHeaderTrace \<longrightarrow> fst (ToL5D h) k = h k)
   \<and> fst (ToL5D h) (CanonicalMIMEHeaderKey l5dHeaderSample)
       = h (CanonicalMIMEHeaderKey l5dHeaderSample)"
proof -
  have import_frame: "FromL5D h k = h k"
    if "k \<notin> {CanonicalMIMEHeaderKey zipkinHeaderTraceID,
              CanonicalMIMEHeaderKey zipkinHeaderSpanID,
              CanonicalMIMEHeaderKey zipkinHeaderParentSpanID}" for k
    using that by (simp add: FromL5D_def Let_def Header_Set_apply split: option.split)
  have export_frame: "fst (ToL5D h) k = h k" if "k \<noteq> CanonicalMIMEHeaderKey l5dHeaderTrace" for k
    using that by (simp add: ToL5D_def Header_Set_apply split: option.split sum.split)
  show ?thesis
    using import_frame export_frame by (simp add: canon_keys)
qed

theorem translation_frame_witness:
  "''X-B3-Sampled'' \<notin> {CanonicalMIMEHeaderKey zipkinHeaderTraceID,
       CanonicalMIMEHeaderKey zipkinHeaderSpanID,
       CanonicalMIMEHeaderKey zipkinHeaderParentSpanID}
   \<and> FromL5D narrow_request ''X-B3-Sampled'' = Some [''0'']
   \<and> ''L5d-Sample'' \<noteq> CanonicalMIMEHeaderKey l5dHeaderTrace
   \<and> fst (ToL5D narrow_b3_request) ''L5d-Sample'' = Some [''0.5'']"
proof -
  have a: "''X-B3-Sampled'' \<notin> {CanonicalMIMEHeaderKey zipkinHeaderTraceID,
       CanonicalMIMEHeaderKey zipkinHeaderSpanID,
       CanonicalMIMEHeaderKey zipkinHeaderParentSpanID}"
    by (simp add: canon_keys)
  have b: "''L5d-Sample'' \<noteq> CanonicalMIMEHeaderKey l5dHeaderTrace"
    by (simp add: canon_keys)
  have c: "narrow_request ''X-B3-Sampled'' = Some [''0'']"
    by (simp add: narrow_request_def)
  have d: "narrow_b3_request ''L5d-Sample'' = Some [''0.5'']"
    by (simp add: narrow_b3_request_def)
  show ?thesis
    using translation_frame [of narrow_request] translation_frame [of narrow_b3_request] a b c d
    by simp
qed

end
